theory Spec2Isabelle
  imports Complex_Main
begin

section \<open>Python strings\<close>

text \<open>
  A Python \<open>str\<close> is a sequence of Unicode code points. A code point is a natural
  number here, so that the characters beyond ASCII that Python's \<open>str.isspace\<close>,
  \<open>str.splitlines\<close> and the regular expression class \<open>\s\<close> know about (for
  instance U+2028) are part of the model. \<open>ustr\<close> turns an ASCII literal into such a
  sequence.
\<close>

type_synonym pychar = nat
type_synonym pystr = "pychar list"

definition ustr :: "string \<Rightarrow> pystr" where
  "ustr s = map of_char s"

definition LF :: pystr where
  "LF = [10]"

definition CRLF :: pystr where
  "CRLF = [13, 10]"

text \<open>
  \<open>c.isspace()\<close>, which is also what \<open>\s\<close> matches in a \<open>str\<close> pattern and what
  \<open>str.strip()\<close> removes: U+0009..U+000D, U+001C..U+0020, U+0085, U+00A0, U+1680,
  U+2000..U+200A, U+2028, U+2029, U+202F, U+205F, U+3000.
\<close>

definition isspace :: "pychar \<Rightarrow> bool" where
  "isspace c \<longleftrightarrow>
     (9 \<le> c \<and> c \<le> 13) \<or> (28 \<le> c \<and> c \<le> 32) \<or> c = 133 \<or> c = 160 \<or> c = 5760 \<or>
     (8192 \<le> c \<and> c \<le> 8202) \<or> c = 8232 \<or> c = 8233 \<or> c = 8239 \<or> c = 8287 \<or> c = 12288"

text \<open>\<open>text.find(sub)\<close>: the least index at which \<open>sub\<close> occurs, \<open>None\<close> for Python's -1.\<close>

fun py_find :: "pystr \<Rightarrow> pystr \<Rightarrow> nat option" where
  "py_find sub [] = (if sub = [] then Some 0 else None)"
| "py_find sub (c # cs) =
     (if take (length sub) (c # cs) = sub then Some 0
      else map_option Suc (py_find sub cs))"

text \<open>\<open>sub in text\<close>.\<close>

definition py_in :: "pystr \<Rightarrow> pystr \<Rightarrow> bool" where
  "py_in sub text \<longleftrightarrow> py_find sub text \<noteq> None"

text \<open>
  \<open>text.count(sub)\<close>: the number of non-overlapping occurrences, scanning from the
  left; for the empty \<open>sub\<close> Python answers \<open>len(text) + 1\<close>.
\<close>

function py_count :: "pystr \<Rightarrow> pystr \<Rightarrow> nat" where
  "py_count text sub =
     (if sub = [] then length text + 1
      else if text = [] then 0
      else if take (length sub) text = sub then 1 + py_count (drop (length sub) text) sub
      else py_count (tl text) sub)"
  by pat_completeness auto
termination
  by (relation "measure (\<lambda>(text, sub). length text)") auto

declare py_count.simps [simp del]

text \<open>
  \<open>text.split(sep)\<close> for a non-empty separator, the only kind the script uses (Python
  raises \<open>ValueError\<close> for the empty one). The result is never the empty list.
\<close>

function py_split_ne :: "pystr \<Rightarrow> pystr \<Rightarrow> pystr list" where
  "py_split_ne text sep =
     (if sep = [] then [text]
      else case py_find sep text of
             None \<Rightarrow> [text]
           | Some i \<Rightarrow> take i text # py_split_ne (drop (i + length sep) text) sep)"
  by pat_completeness auto
termination
proof (relation "measure (\<lambda>(text, sep). length text)")
  show "wf (measure (\<lambda>(text, sep). length text))"
    by simp
next
  fix t sep :: pystr and i :: nat
  assume ne: "sep \<noteq> []" and found: "py_find sep t = Some i"
  have "t \<noteq> []"
    using ne found by (cases t) auto
  then show "((drop (i + length sep) t, sep), (t, sep)) \<in> measure (\<lambda>(text, sep). length text)"
    using ne by simp
qed

declare py_split_ne.simps [simp del]

text \<open>\<open>text.strip()\<close>: white space removed at both ends.\<close>

definition py_strip :: "pystr \<Rightarrow> pystr" where
  "py_strip text = rev (dropWhile isspace (rev (dropWhile isspace text)))"

text \<open>
  \<open>text.splitlines()\<close>: the line boundaries are \<open>\n\<close>, \<open>\r\<close>, \<open>\r\n\<close>, \<open>\v\<close>, \<open>\f\<close>,
  U+001C, U+001D, U+001E, U+0085, U+2028 and U+2029; a final boundary opens no empty
  last line. The first argument is the current line, reversed.
\<close>

definition is_linebreak :: "pychar \<Rightarrow> bool" where
  "is_linebreak c \<longleftrightarrow>
     (10 \<le> c \<and> c \<le> 13) \<or> (28 \<le> c \<and> c \<le> 30) \<or> c = 133 \<or> c = 8232 \<or> c = 8233"

fun splitlines_from :: "pystr \<Rightarrow> pystr \<Rightarrow> pystr list" where
  "splitlines_from cur [] = (if cur = [] then [] else [rev cur])"
| "splitlines_from cur [a] = (if is_linebreak a then [rev cur] else [rev (a # cur)])"
| "splitlines_from cur (a # b # cs) =
     (if a = 13 \<and> b = 10 then rev cur # splitlines_from [] cs
      else if is_linebreak a then rev cur # splitlines_from [] (b # cs)
      else splitlines_from (a # cur) (b # cs))"

definition py_splitlines :: "pystr \<Rightarrow> pystr list" where
  "py_splitlines text = splitlines_from [] text"

text \<open>\<open>sep.join(lines)\<close>.\<close>

fun py_join :: "pystr \<Rightarrow> pystr list \<Rightarrow> pystr" where
  "py_join sep [] = []"
| "py_join sep [x] = x"
| "py_join sep (x # y # ys) = x @ sep @ py_join sep (y # ys)"

text \<open>\<open>str(n)\<close> for a count.\<close>

fun str_of_nat :: "nat \<Rightarrow> pystr" where
  "str_of_nat n = (if n < 10 then [48 + n] else str_of_nat (n div 10) @ [48 + n mod 10])"

declare str_of_nat.simps [simp del]

section \<open>Paths\<close>

text \<open>
  \<open>pathlib.Path\<close> in its POSIX flavour: a root (\<open>''\<close>, \<open>'/'\<close> or \<open>'//'\<close>) and the
  components, from which the empty ones and \<open>'.'\<close> are dropped when a string is parsed.
\<close>

datatype Path = Path (proot: pystr) (parts: "pystr list")

definition path_of_str :: "pystr \<Rightarrow> Path" where
  "path_of_str f =
     Path (if take 2 f = ustr ''//'' \<and> take 3 f \<noteq> ustr ''///'' then ustr ''//''
           else if take 1 f = ustr ''/'' then ustr ''/''
           else [])
          (filter (\<lambda>c. c \<noteq> [] \<and> c \<noteq> ustr ''.'') (py_split_ne f (ustr ''/'')))"

text \<open>\<open>str(p)\<close>.\<close>

definition str_of_path :: "Path \<Rightarrow> pystr" where
  "str_of_path p =
     (if proot p = [] \<and> parts p = [] then ustr ''.''
      else proot p @ py_join (ustr ''/'') (parts p))"

text \<open>\<open>p / f\<close> for a string \<open>f\<close>: a rooted \<open>f\<close> replaces \<open>p\<close>.\<close>

definition joinpath :: "Path \<Rightarrow> pystr \<Rightarrow> Path" where
  "joinpath p f =
     (let q = path_of_str f
      in if proot q \<noteq> [] then q else Path (proot p) (parts p @ parts q))"

text \<open>\<open>os.path.isabs(f)\<close> of \<open>posixpath\<close>.\<close>

definition isabs :: "pystr \<Rightarrow> bool" where
  "isabs f \<longleftrightarrow> take 1 f = ustr ''/''"

text \<open>\<open>p.name\<close>, \<open>p.suffix\<close> and \<open>p.parents\<close>.\<close>

definition name :: "Path \<Rightarrow> pystr" where
  "name p = (if parts p = [] then [] else last (parts p))"

definition py_rfind_char :: "pychar \<Rightarrow> pystr \<Rightarrow> nat option" where
  "py_rfind_char c text =
     (case py_find [c] (rev text) of
        None \<Rightarrow> None
      | Some k \<Rightarrow> Some (length text - 1 - k))"

definition suffix :: "Path \<Rightarrow> pystr" where
  "suffix p =
     (case py_rfind_char 46 (name p) of
        None \<Rightarrow> []
      | Some i \<Rightarrow> if 0 < i \<and> i < length (name p) - 1 then drop i (name p) else [])"

definition parents :: "Path \<Rightarrow> Path list" where
  "parents p = map (\<lambda>k. Path (proot p) (take k (parts p))) (rev [0..<length (parts p)])"

section \<open>The environment of the script\<close>

text \<open>
  An exception is a value. \<open>CalledProcessError\<close> is what \<open>subprocess.check_output\<close>
  raises when the command exits with a non-zero status, \<open>PermissionError\<close> is the one
  the write-back handles, and \<open>OtherError\<close> stands for every other subclass of
  \<open>Exception\<close> (\<open>FileNotFoundError\<close> when the \<open>git\<close> executable cannot be started,
  \<open>OSError\<close>, ...). Each carries the text of \<open>str(e)\<close>.
\<close>

datatype exc = CalledProcessError pystr | PermissionError pystr | OtherError pystr

fun str_of_exc :: "exc \<Rightarrow> pystr" where
  "str_of_exc (CalledProcessError m) = m"
| "str_of_exc (PermissionError m) = m"
| "str_of_exc (OtherError m) = m"

text \<open>The \<open>argparse.Namespace\<close> that \<open>parse_args\<close> returns.\<close>

record namespace =
  files :: "pystr list"
  mode :: pystr

text \<open>
  What the script reads from and writes to, outside its own code:
  \<^item> \<open>REPO_ROOT\<close>: \<open>Path(__file__).resolve().parents[1]\<close>;
  \<^item> \<open>read_text\<close>: the \<open>str\<close> that \<open>path.read_text(encoding='utf-8', errors='ignore')\<close>
    returns, or the exception raised; a text handed to \<open>write_text\<close> is read back
    as it is;
  \<^item> \<open>check_output\<close>: \<open>subprocess.check_output(argv, cwd=...)\<close>, decoded, or the
    exception raised;
  \<^item> \<open>stat\<close>: the pair \<open>(st_ctime, st_mtime)\<close>, or the exception raised;
  \<^item> \<open>strftime\<close>: \<open>datetime.fromtimestamp(ts).strftime('%Y-%m-%d %H:%M:%S')\<close>, or the
    exception raised;
  \<^item> \<open>now\<close>: \<open>datetime.now().strftime('%Y-%m-%d %H:%M:%S')\<close>;
  \<^item> \<open>write_fault\<close>: the exception that writing a file raises at present, if any;
  \<^item> \<open>chmod_result\<close>: \<open>os.chmod(path, stat.S_IWRITE)\<close> raises, or succeeds and leaves
    the file with a new write fault (\<open>None\<close>: writable);
  \<^item> \<open>is_file\<close> and \<open>rglob\<close>: \<open>p.is_file()\<close> and \<open>REPO_ROOT.rglob('*')\<close>;
  \<^item> \<open>argparse\<close>: \<open>parser.parse_args(argv)\<close> of the parser built in \<open>parse_args\<close>;
    \<open>Inl code\<close> is \<open>SystemExit(code)\<close>.
\<close>

record world =
  REPO_ROOT :: Path
  read_text :: "Path \<Rightarrow> exc + pystr"
  check_output :: "pystr list \<Rightarrow> Path \<Rightarrow> exc + pystr"
  stat :: "Path \<Rightarrow> exc + (rat \<times> rat)"
  strftime :: "rat \<Rightarrow> exc + pystr"
  now :: pystr
  write_fault :: "Path \<Rightarrow> exc option"
  chmod_result :: "Path \<Rightarrow> exc + exc option"
  is_file :: "Path \<Rightarrow> bool"
  rglob :: "Path list"
  argparse :: "pystr list \<Rightarrow> int + namespace"

text \<open>\<open>path.write_text(data, encoding='utf-8')\<close> and \<open>os.chmod(path, stat.S_IWRITE)\<close>.\<close>

definition write_text :: "world \<Rightarrow> Path \<Rightarrow> pystr \<Rightarrow> exc + world" where
  "write_text w path data =
     (case write_fault w path of
        Some e \<Rightarrow> Inl e
      | None \<Rightarrow> Inr (w\<lparr>read_text := (read_text w)(path := Inr data)\<rparr>))"

definition chmod :: "world \<Rightarrow> Path \<Rightarrow> exc + world" where
  "chmod w path =
     (case chmod_result w path of
        Inl e \<Rightarrow> Inl e
      | Inr fault \<Rightarrow> Inr (w\<lparr>write_fault := (write_fault w)(path := fault)\<rparr>))"

section \<open>The script\<close>

definition TARGET_EXTS :: "pystr set" where
  "TARGET_EXTS = {ustr ''.cpp'', ustr ''.h'', ustr ''.hpp''}"

definition AUTHOR :: pystr where
  "AUTHOR = ustr ''wuxiaoxiao''"

definition EMAIL :: pystr where
  "EMAIL = ustr ''wuxiaoxiao@gmail.com''"

definition SKIP_DIRS :: "pystr set" where
  "SKIP_DIRS = {ustr ''build'', ustr ''bin'', ustr ''CMakeFiles'', ustr ''DispCtrl_autogen'',
                ustr ''.git'', ustr ''.vscode''}"

text \<open>
  \<open>HEADER_RE = re.compile(r"^/\*[\s\S]*?\*/\s*", re.M)\<close>, used through
  \<open>HEADER_RE.match(orig)\<close> only, which anchors the match at index 0. The text has to
  start with \<open>/*\<close>; the lazy \<open>[\s\S]*?\<close> stops at the first \<open>*/\<close> that starts at index 2
  or later, since the \<open>\s*\<close> after it cannot fail; the greedy \<open>\s*\<close> takes all the white
  space that follows. The result is \<open>m.end()\<close>, so that \<open>m.group(0)\<close> is
  \<open>take (m.end()) orig\<close>; \<open>None\<close> is no match.
\<close>

definition HEADER_RE_match :: "pystr \<Rightarrow> nat option" where
  "HEADER_RE_match orig =
     (if take 2 orig = ustr ''/*'' then
        (case py_find (ustr ''*/'') (drop 2 orig) of
           None \<Rightarrow> None
         | Some k \<Rightarrow> Some (2 + k + 2 + length (takeWhile isspace (drop (2 + k + 2) orig))))
      else None)"

definition run_git :: "world \<Rightarrow> pystr list \<Rightarrow> Path \<Rightarrow> exc + pystr" where
  "run_git w args cwd =
     (case check_output w (ustr ''git'' # args) cwd of
        Inr out \<Rightarrow> Inr (py_strip out)
      | Inl (CalledProcessError m) \<Rightarrow> Inr []
      | Inl e \<Rightarrow> Inl e)"

definition get_git_dates :: "world \<Rightarrow> Path \<Rightarrow> exc + (pystr option \<times> pystr option)" where
  "get_git_dates w file_path =
     (case run_git w [ustr ''log'', ustr ''--diff-filter=A'', ustr ''--follow'',
                      ustr ''--format=%ci'', ustr ''--'', str_of_path file_path] (REPO_ROOT w) of
        Inl e \<Rightarrow> Inl e
      | Inr created0 \<Rightarrow>
          let created = (if created0 \<noteq> [] then last (py_splitlines created0) else created0)
          in (case run_git w [ustr ''log'', ustr ''-1'', ustr ''--format=%ci'', ustr ''--'',
                              str_of_path file_path] (REPO_ROOT w) of
                Inl e \<Rightarrow> Inl e
              | Inr lastc \<Rightarrow>
                  Inr (if created = [] then None else Some created,
                       if lastc = [] then None else Some lastc)))"

definition get_fs_dates :: "world \<Rightarrow> Path \<Rightarrow> pystr option \<times> pystr option" where
  "get_fs_dates w file_path =
     (case stat w file_path of
        Inl e \<Rightarrow> (None, None)
      | Inr (st_ctime, st_mtime) \<Rightarrow>
          let created_ts = min st_ctime st_mtime;
              modified_ts = st_mtime
          in (case strftime w created_ts of
                Inl e \<Rightarrow> (None, None)
              | Inr created \<Rightarrow>
                  (case strftime w modified_ts of
                     Inl e \<Rightarrow> (None, None)
                   | Inr modified \<Rightarrow> (Some created, Some modified))))"

definition normalize_datetime :: "pystr option \<Rightarrow> pystr option" where
  "normalize_datetime dt =
     (case dt of
        None \<Rightarrow> None
      | Some d \<Rightarrow> if d = [] then None else Some (py_strip (py_split_ne d (ustr '' +'') ! 0)))"

definition detect_eol :: "pystr \<Rightarrow> pystr" where
  "detect_eol text =
     (if py_in CRLF text \<and>
         int (py_count text CRLF) \<ge> int (py_count text LF) - int (py_count text CRLF)
      then CRLF else LF)"

definition build_header :: "pystr option \<Rightarrow> pystr option \<Rightarrow> pystr \<Rightarrow> pystr" where
  "build_header date_created date_last eol =
     (let dc = (case date_created of None \<Rightarrow> [] | Some d \<Rightarrow> d);
          dl = (case date_last of None \<Rightarrow> [] | Some d \<Rightarrow> d);
          lines = [ustr ''/*'',
                   ustr '' * @Author: '' @ AUTHOR,
                   ustr '' * @Email: '' @ EMAIL,
                   ustr '' * @Date: '' @ dc,
                   ustr '' * @LastEditors: '' @ AUTHOR,
                   ustr '' * @LastEditTime: '' @ dl,
                   ustr '' * @Description: '',
                   ustr '' */'',
                   []]
      in py_join eol lines)"

definition should_skip :: "Path \<Rightarrow> bool" where
  "should_skip path \<longleftrightarrow> (\<exists>n \<in> set (map name (parents path)). n \<in> SKIP_DIRS)"

text \<open>
  \<open>update_file\<close>, in the order of its body. \<open>update_file_dates\<close> is the derivation of
  the two timestamps (the calls of \<open>get_git_dates\<close> and \<open>normalize_datetime\<close>, the
  fallback to the filesystem times and the stamp of commit mode);
  \<open>has_header_marker\<close> is the test on the leading block and \<open>update_file_splice\<close> the
  choice between replacing that block and inserting above the text;
  \<open>update_file_new_text\<close> reads the file and composes \<open>new_text\<close>; \<open>update_file\<close> adds
  the write-back and returns, with the world it leaves, the boolean or the exception
  that escapes.
\<close>

definition update_file_dates ::
  "world \<Rightarrow> Path \<Rightarrow> pystr \<Rightarrow> exc + (pystr option \<times> pystr option)" where
  "update_file_dates w path md =
     (case get_git_dates w path of
        Inl e \<Rightarrow> Inl e
      | Inr (created0, last0) \<Rightarrow>
          let created1 = normalize_datetime created0;
              last1 = normalize_datetime last0;
              (created, last2) =
                (if created1 = None \<or> last1 = None then
                   let (fs_created, fs_last) = get_fs_dates w path
                   in (if created1 = None then fs_created else created1,
                       if last1 = None then fs_last else last1)
                 else (created1, last1));
              lastc = (if md = ustr ''commit'' then Some (now w) else last2)
          in Inr (created, lastc))"

definition has_header_marker :: "pystr \<Rightarrow> bool" where
  "has_header_marker block \<longleftrightarrow>
     py_in (ustr ''@Author'') block \<or> py_in (ustr ''Author:'') block \<or>
     py_in (ustr ''@LastEditTime'') block \<or> py_in (ustr ''LastEditTime'') block"

definition update_file_splice :: "pystr \<Rightarrow> pystr \<Rightarrow> pystr" where
  "update_file_splice header orig =
     (case HEADER_RE_match orig of
        Some m_end \<Rightarrow>
          if has_header_marker (take m_end orig) then header @ drop m_end orig
          else header @ orig
      | None \<Rightarrow> header @ orig)"

definition update_file_new_text :: "world \<Rightarrow> Path \<Rightarrow> pystr \<Rightarrow> exc + (pystr \<times> pystr)" where
  "update_file_new_text w path md =
     (case read_text w path of
        Inl e \<Rightarrow> Inl e
      | Inr orig \<Rightarrow>
          let eol = detect_eol orig
          in (case update_file_dates w path md of
                Inl e \<Rightarrow> Inl e
              | Inr (created, lastc) \<Rightarrow>
                  let header = build_header created lastc eol
                  in Inr (orig, update_file_splice header orig)))"

definition update_file :: "world \<Rightarrow> Path \<Rightarrow> pystr \<Rightarrow> (exc + bool) \<times> world" where
  "update_file w path md =
     (case update_file_new_text w path md of
        Inl e \<Rightarrow> (Inl e, w)
      | Inr (orig, new_text) \<Rightarrow>
          if new_text \<noteq> orig then
            (case write_text w path new_text of
               Inr w1 \<Rightarrow> (Inr True, w1)
             | Inl (PermissionError m) \<Rightarrow>
                 (case chmod w path of
                    Inl e \<Rightarrow> (Inl e, w)
                  | Inr w1 \<Rightarrow>
                      (case write_text w1 path new_text of
                         Inl e \<Rightarrow> (Inl e, w1)
                       | Inr w2 \<Rightarrow> (Inr True, w2)))
             | Inl e \<Rightarrow> (Inl e, w))
          else (Inr False, w))"

definition parse_args :: "world \<Rightarrow> pystr list \<Rightarrow> int + namespace" where
  "parse_args w argv = argparse w argv"

text \<open>
  \<open>list_target_files\<close>; \<open>target_path\<close> is the path it makes of one argument and
  \<open>is_target\<close> the filter both of its branches apply.
\<close>

definition target_path :: "world \<Rightarrow> pystr \<Rightarrow> Path" where
  "target_path w f = (if \<not> isabs f then joinpath (REPO_ROOT w) f else path_of_str f)"

definition is_target :: "world \<Rightarrow> Path \<Rightarrow> bool" where
  "is_target w p \<longleftrightarrow> suffix p \<in> TARGET_EXTS \<and> is_file w p \<and> \<not> should_skip p"

definition list_target_files :: "world \<Rightarrow> pystr list \<Rightarrow> Path list" where
  "list_target_files w fs =
     (if fs \<noteq> [] then filter (is_target w) (map (target_path w) fs)
      else filter (is_target w) (rglob w))"

text \<open>
  \<open>main\<close>. \<open>main_loop\<close> is its \<open>for\<close> loop, with the counter, the lines printed so far
  and the world as its state. \<open>main\<close> gives the exit status it returns (\<open>Inr\<close>) or the
  code of the \<open>SystemExit\<close> that leaves it (\<open>Inl\<close>), the lines printed and the world.
\<close>

definition warn_line :: "Path \<Rightarrow> exc \<Rightarrow> pystr" where
  "warn_line f e = ustr ''[WARN] Failed updating '' @ str_of_path f @ ustr '': '' @ str_of_exc e"

definition summary_line :: "nat \<Rightarrow> pystr" where
  "summary_line changed = ustr ''Updated headers in '' @ str_of_nat changed @ ustr '' file(s)''"

fun main_loop :: "pystr \<Rightarrow> Path list \<Rightarrow> nat \<times> pystr list \<times> world \<Rightarrow> nat \<times> pystr list \<times> world" where
  "main_loop md [] st = st"
| "main_loop md (f # fs) (changed, out, w) =
     (case update_file w f md of
        (Inr True, w1) \<Rightarrow> main_loop md fs (changed + 1, out, w1)
      | (Inr False, w1) \<Rightarrow> main_loop md fs (changed, out, w1)
      | (Inl e, w1) \<Rightarrow> main_loop md fs (changed, out @ [warn_line f e], w1))"

definition main :: "world \<Rightarrow> pystr list \<Rightarrow> (int + int) \<times> pystr list \<times> world" where
  "main w argv =
     (case parse_args w argv of
        Inl code \<Rightarrow> (Inl code, [], w)
      | Inr args \<Rightarrow>
          let fs = list_target_files w (files args);
              (changed, out, w1) = main_loop (mode args) fs (0, [], w)
          in (Inr 0, out @ [summary_line changed], w1))"

section \<open>Reference notions and examples\<close>


text \<open>
  An example: the file \<open>/repo/src/widget.cpp\<close> with a given content in a repository at
  \<open>/repo\<close>. The file is not tracked (both \<open>git log\<close> queries print nothing), its
  metadata changed at 2024-01-01 10:00:00 and its content at 2024-01-02 09:00:00, it
  is writable, and it is the only file there. \<open>example_argparse\<close> is the parser on
  the argument lists of the examples: a list of file names without options gives
  these files and the default mode \<open>git\<close>, and \<open>--mode bogus\<close>, whose value is not among
  the choices, ends in \<open>SystemExit(2)\<close>.
\<close>

definition widget :: Path where
  "widget = Path (ustr ''/'') [ustr ''repo'', ustr ''src'', ustr ''widget.cpp'']"

definition example_strftime :: "rat \<Rightarrow> exc + pystr" where
  "example_strftime ts =
     (if ts = 1704103200 then Inr (ustr ''2024-01-01 10:00:00'')
      else if ts = 1704186000 then Inr (ustr ''2024-01-02 09:00:00'')
      else Inl (OtherError (ustr ''timestamp out of range'')))"

definition example_argparse :: "pystr list \<Rightarrow> int + namespace" where
  "example_argparse argv =
     (if argv = [ustr ''--mode'', ustr ''bogus''] then Inl 2
      else Inr \<lparr>files = argv, mode = ustr ''git''\<rparr>)"

definition example_world :: "pystr \<Rightarrow> world" where
  "example_world content =
     \<lparr>REPO_ROOT = Path (ustr ''/'') [ustr ''repo''],
      read_text = (\<lambda>p. if p = widget then Inr content
                        else Inl (OtherError (ustr ''No such file or directory''))),
      check_output = (\<lambda>argv cwd. Inr []),
      stat = (\<lambda>p. Inr (1704103200, 1704186000)),
      strftime = example_strftime,
      now = ustr ''2024-03-01 12:00:00'',
      write_fault = (\<lambda>p. None),
      chmod_result = (\<lambda>p. Inr None),
      is_file = (\<lambda>p. p = widget),
      rglob = [widget],
      argparse = example_argparse\<rparr>"



text \<open>The world in which every query that exits with a non-zero status prints nothing instead.\<close>

definition git_silenced :: "world \<Rightarrow> world" where
  "git_silenced w =
     w\<lparr>check_output := (\<lambda>argv cwd. case check_output w argv cwd of
                                     Inl (CalledProcessError m) \<Rightarrow> Inr []
                                   | r \<Rightarrow> r)\<rparr>"

text \<open>The example with a \<open>git\<close> executable that cannot be started.\<close>

definition no_git_world :: world where
  "no_git_world =
     (example_world (ustr ''int x;''))
       \<lparr>check_output := (\<lambda>argv cwd. Inl (OtherError (ustr ''[Errno 2] No such file or directory'')))\<rparr>"

text \<open>The example with a repository in which both queries exit with status 128.\<close>

definition failing_git_world :: world where
  "failing_git_world =
     (example_world (ustr ''int x;''))
       \<lparr>check_output := (\<lambda>argv cwd. Inl (CalledProcessError (ustr ''returned non-zero exit status 128'')))\<rparr>"








section \<open>Lemmas on strings and on the leading block\<close>


lemma py_find_pair_append:
  assumes "a \<noteq> b" and "py_find [a, b] xs = None"
  shows "py_find [a, b] (xs @ a # b # ys) = Some (length xs)"
  using assms(2)
proof (induction xs)
  case Nil
  show ?case by simp
next
  case (Cons x xs)
  from Cons.prems have no: "take 2 (x # xs) \<noteq> [a, b]" and rest: "py_find [a, b] xs = None"
    by (auto split: if_splits)
  have "take 2 ((x # xs) @ a # b # ys) \<noteq> [a, b]"
    using no assms(1) by (cases xs) auto
  with Cons.IH [OF rest] show ?case by simp
qed




section \<open>Lemmas on the write-back\<close>




section \<open>Lemmas on the end-of-line vote\<close>








lemma update_file_splice_prefix: "\<exists>rest. update_file_splice header orig = header @ rest"
  by (simp add: update_file_splice_def split: option.splits)


section \<open>The header\<close>

text \<open>
  Claim C9. For every pair of timestamps, absent or not, and every end-of-line string,
  \<open>build_header\<close> renders the same block comment: the opening line, then the fields
  Author, Email, Date, LastEditors, LastEditTime and Description in this order, then
  the closing line, each line followed by the end-of-line string. An absent timestamp
  leaves its field in place with an empty value.
\<close>

theorem build_header_fixed_fields:
  "build_header date_created date_last eol =
     ustr ''/*'' @ eol @
     ustr '' * @Author: wuxiaoxiao'' @ eol @
     ustr '' * @Email: wuxiaoxiao@gmail.com'' @ eol @
     ustr '' * @Date: '' @ (case date_created of None \<Rightarrow> [] | Some d \<Rightarrow> d) @ eol @
     ustr '' * @LastEditors: wuxiaoxiao'' @ eol @
     ustr '' * @LastEditTime: '' @ (case date_last of None \<Rightarrow> [] | Some d \<Rightarrow> d) @ eol @
     ustr '' * @Description: '' @ eol @
     ustr '' */'' @ eol"
  by (simp add: build_header_def AUTHOR_def EMAIL_def ustr_def)

section \<open>The end-of-line vote\<close>




section \<open>Normalising a timestamp\<close>

text \<open>
  A timestamp with a positive offset loses it: what stands before the first \<open>' +'\<close> is
  kept, stripped of white space at both ends.
\<close>

lemma normalize_datetime_positive_offset:
  assumes "\<not> py_in (ustr '' +'') ts"
  shows "normalize_datetime (Some (ts @ ustr '' +'' @ off)) = Some (py_strip ts)"
proof -
  have "py_find (ustr '' +'') (ts @ ustr '' +'' @ off) = Some (length ts)"
    using py_find_pair_append [of 32 43 ts off] assms by (simp add: ustr_def py_in_def)
  then have "py_split_ne (ts @ ustr '' +'' @ off) (ustr '' +'') ! 0 = ts"
    by (subst py_split_ne.simps) (simp add: ustr_def)
  then show ?thesis
    by (simp add: normalize_datetime_def ustr_def)
qed

lemma normalize_datetime_absent:
  "normalize_datetime None = None \<and> normalize_datetime (Some []) = None"
  by (simp add: normalize_datetime_def)

text \<open>
  Claim C5. \<open>normalize_datetime\<close> is to strip the timezone offset of a timestamp in
  the form \<open>YYYY-MM-DD HH:MM:SS <offset>\<close> and keep the first nineteen characters.
  It splits at \<open>' +'\<close> only: the timestamp \<open>2024-01-01 10:00:00 -0500\<close>, whose offset is
  negative, comes back whole, 25 characters long.
\<close>

theorem normalize_datetime_keeps_negative_offset:
  "normalize_datetime (Some (ustr ''2024-01-01 10:00:00 -0500'')) =
     Some (ustr ''2024-01-01 10:00:00 -0500'') \<and>
   normalize_datetime (Some (ustr ''2024-01-01 10:00:00 +0800'')) =
     Some (ustr ''2024-01-01 10:00:00'')"
  by code_simp


section \<open>Replacing a header, inserting a header\<close>



lemma update_file_new_text_eq:
  assumes "read_text w path = Inr orig"
    and "update_file_dates w path md = Inr (created, lastc)"
  shows "update_file_new_text w path md =
           Inr (orig, update_file_splice (build_header created lastc (detect_eol orig)) orig)"
  using assms by (simp add: update_file_new_text_def)







section \<open>Failures of the version-control query\<close>

lemma py_strip_Nil: "py_strip [] = []"
  by (simp add: py_strip_def)

lemma run_git_silenced: "run_git (git_silenced w) args cwd = run_git w args cwd"
  by (simp add: run_git_def git_silenced_def py_strip_Nil split: sum.splits exc.splits)

lemma git_silenced_fields:
  "REPO_ROOT (git_silenced w) = REPO_ROOT w"
  "read_text (git_silenced w) = read_text w"
  "stat (git_silenced w) = stat w"
  "strftime (git_silenced w) = strftime w"
  "now (git_silenced w) = now w"
  "write_fault (git_silenced w) = write_fault w"
  "chmod_result (git_silenced w) = chmod_result w"
  "is_file (git_silenced w) = is_file w"
  "rglob (git_silenced w) = rglob w"
  "argparse (git_silenced w) = argparse w"
  by (simp_all add: git_silenced_def)

lemma get_git_dates_silenced: "get_git_dates (git_silenced w) path = get_git_dates w path"
  unfolding get_git_dates_def run_git_silenced git_silenced_fields by (rule refl)

lemma get_fs_dates_silenced: "get_fs_dates (git_silenced w) path = get_fs_dates w path"
  unfolding get_fs_dates_def git_silenced_fields by (rule refl)

lemma update_file_dates_silenced:
  "update_file_dates (git_silenced w) path md = update_file_dates w path md"
  unfolding update_file_dates_def get_git_dates_silenced get_fs_dates_silenced git_silenced_fields
  by (rule refl)

lemma update_file_new_text_silenced:
  "update_file_new_text (git_silenced w) path md = update_file_new_text w path md"
  unfolding update_file_new_text_def update_file_dates_silenced git_silenced_fields
  by (rule refl)

lemma write_text_silenced:
  "write_text (git_silenced w) path d = map_sum id git_silenced (write_text w path d)"
  by (simp add: write_text_def git_silenced_def split: option.splits)

lemma chmod_silenced: "chmod (git_silenced w) path = map_sum id git_silenced (chmod w path)"
  by (simp add: chmod_def git_silenced_def split: sum.splits)

lemma update_file_silenced:
  "update_file (git_silenced w) path md =
     (fst (update_file w path md), git_silenced (snd (update_file w path md)))"
  by (simp add: update_file_def update_file_new_text_silenced write_text_silenced chmod_silenced
           split: sum.splits prod.splits exc.splits)

lemma main_loop_silenced:
  "main_loop md fs (changed, out, git_silenced w) =
     (case main_loop md fs (changed, out, w) of (c, out1, w1) \<Rightarrow> (c, out1, git_silenced w1))"
proof (induction fs arbitrary: changed out w)
  case Nil
  show ?case by simp
next
  case (Cons f fs)
  obtain r w1 where u: "update_file w f md = (r, w1)"
    by (cases "update_file w f md")
  then have "update_file (git_silenced w) f md = (r, git_silenced w1)"
    by (simp add: update_file_silenced)
  with u Cons.IH show ?case
    by (simp split: sum.splits bool.splits)
qed

lemma list_target_files_silenced: "list_target_files (git_silenced w) fs = list_target_files w fs"
proof -
  have "is_target (git_silenced w) = is_target w"
    by (simp add: is_target_def git_silenced_fields fun_eq_iff)
  moreover have "target_path (git_silenced w) = target_path w"
    by (simp add: target_path_def git_silenced_fields fun_eq_iff)
  moreover have "rglob (git_silenced w) = rglob w"
    by (simp add: git_silenced_fields)
  ultimately show ?thesis
    by (simp add: list_target_files_def)
qed

lemma main_silenced:
  "main (git_silenced w) argv =
     (case main w argv of (status, out, w1) \<Rightarrow> (status, out, git_silenced w1))"
proof -
  have "parse_args (git_silenced w) argv = parse_args w argv"
    by (simp add: parse_args_def git_silenced_def)
  then show ?thesis
    by (simp add: main_def list_target_files_silenced main_loop_silenced Let_def
             split: sum.splits prod.splits)
qed

text \<open>
  Claim C6, as the script has it. A version-control query that exits with a non-zero
  status (\<open>CalledProcessError\<close>) is swallowed and counts as no data: \<open>update_file\<close> and
  \<open>main\<close> return and print exactly what they do when the query prints nothing, so the
  failure neither aborts the file nor reaches the user; and when both queries fail so,
  both timestamps are those of the filesystem fallback (the last one replaced by the
  current time in commit mode).
\<close>

theorem called_process_error_is_no_data:
  "fst (update_file w path md) = fst (update_file (git_silenced w) path md) \<and>
   update_file_new_text w path md = update_file_new_text (git_silenced w) path md \<and>
   fst (main w argv) = fst (main (git_silenced w) argv) \<and>
   fst (snd (main w argv)) = fst (snd (main (git_silenced w) argv)) \<and>
   (check_output w [ustr ''git'', ustr ''log'', ustr ''--diff-filter=A'', ustr ''--follow'',
                    ustr ''--format=%ci'', ustr ''--'', str_of_path path] (REPO_ROOT w)
      = Inl (CalledProcessError m1) \<longrightarrow>
    check_output w [ustr ''git'', ustr ''log'', ustr ''-1'', ustr ''--format=%ci'', ustr ''--'',
                    str_of_path path] (REPO_ROOT w)
      = Inl (CalledProcessError m2) \<longrightarrow>
    update_file_dates w path md =
      Inr (fst (get_fs_dates w path),
           if md = ustr ''commit'' then Some (now w) else snd (get_fs_dates w path)))"
proof -
  have "check_output w [ustr ''git'', ustr ''log'', ustr ''--diff-filter=A'', ustr ''--follow'',
                    ustr ''--format=%ci'', ustr ''--'', str_of_path path] (REPO_ROOT w)
      = Inl (CalledProcessError m1) \<longrightarrow>
    check_output w [ustr ''git'', ustr ''log'', ustr ''-1'', ustr ''--format=%ci'', ustr ''--'',
                    str_of_path path] (REPO_ROOT w)
      = Inl (CalledProcessError m2) \<longrightarrow>
    update_file_dates w path md =
      Inr (fst (get_fs_dates w path),
           if md = ustr ''commit'' then Some (now w) else snd (get_fs_dates w path))"
    by (simp add: update_file_dates_def get_git_dates_def run_git_def normalize_datetime_def
          Let_def split: prod.splits)
  then show ?thesis
    by (simp add: update_file_silenced update_file_new_text_silenced main_silenced
          split: prod.splits)
qed

theorem called_process_error_is_no_data_witness:
  "update_file_dates failing_git_world widget (ustr ''git'') =
     Inr (Some (ustr ''2024-01-01 10:00:00''), Some (ustr ''2024-01-02 09:00:00'')) \<and>
   fst (update_file failing_git_world widget (ustr ''git'')) = Inr True"
proof -
  have c: "check_output failing_git_world [ustr ''git'', ustr ''log'', ustr ''--diff-filter=A'',
             ustr ''--follow'', ustr ''--format=%ci'', ustr ''--'', str_of_path widget]
             (REPO_ROOT failing_git_world)
           = Inl (CalledProcessError (ustr ''returned non-zero exit status 128''))"
    by (simp add: failing_git_world_def)
  have l: "check_output failing_git_world [ustr ''git'', ustr ''log'', ustr ''-1'',
             ustr ''--format=%ci'', ustr ''--'', str_of_path widget] (REPO_ROOT failing_git_world)
           = Inl (CalledProcessError (ustr ''returned non-zero exit status 128''))"
    by (simp add: failing_git_world_def)
  have f: "get_fs_dates failing_git_world widget =
             (Some (ustr ''2024-01-01 10:00:00''), Some (ustr ''2024-01-02 09:00:00''))"
    by code_simp
  have s: "fst (update_file (git_silenced failing_git_world) widget (ustr ''git'')) = Inr True"
    by code_simp
  have g: "ustr ''git'' \<noteq> ustr ''commit''"
    by (simp add: ustr_def)
  show ?thesis
    using called_process_error_is_no_data [of failing_git_world widget "ustr ''git''" "[]"
        "ustr ''returned non-zero exit status 128'' " "ustr ''returned non-zero exit status 128''"]
      c l f s g
    by simp
qed

text \<open>
  The \<open>git\<close> executable cannot be started: \<open>check_output\<close> raises an exception that is
  not a \<open>CalledProcessError\<close>. \<open>run_git\<close> does not catch it, \<open>update_file\<close> raises it
  before anything is written, and \<open>main\<close> prints it in a warning line.
\<close>

theorem git_failure_surfaces_counterexample:
  "fst (update_file no_git_world widget (ustr ''git'')) =
     Inl (OtherError (ustr ''[Errno 2] No such file or directory'')) \<and>
   fst (snd (main no_git_world [ustr ''src/widget.cpp''])) =
     [ustr ''[WARN] Failed updating /repo/src/widget.cpp: [Errno 2] No such file or directory'',
      ustr ''Updated headers in 0 file(s)'']"
  by code_simp



section \<open>The filesystem fallback\<close>

lemma example_git_no_data: "get_git_dates (example_world content) widget = Inr (None, None)"
  by code_simp

text \<open>
  Claim C8, as the script has it. Let the version-control queries of a file yield no
  data, let its \<open>stat\<close> succeed and the two timestamps be rendered, and let the mode
  not be \<open>commit\<close>. Then both fields come from the filesystem metadata: Date is the
  rendering of the earlier of \<open>st_ctime\<close> and \<open>st_mtime\<close>, LastEditTime the rendering
  of \<open>st_mtime\<close>, the composed text starts with the header built of the two, and the
  instant behind Date is not later than the one behind LastEditTime.
\<close>

theorem fallback_dates_from_filesystem:
  assumes "get_git_dates w path = Inr (None, None)"
    and "stat w path = Inr (st_ctime, st_mtime)"
    and "strftime w (min st_ctime st_mtime) = Inr created"
    and "strftime w st_mtime = Inr modified"
    and "md \<noteq> ustr ''commit''"
    and "read_text w path = Inr orig"
  shows "update_file_dates w path md = Inr (Some created, Some modified) \<and>
         (\<exists>rest. update_file_new_text w path md =
            Inr (orig, build_header (Some created) (Some modified) (detect_eol orig) @ rest)) \<and>
         min st_ctime st_mtime \<le> st_mtime"
proof -
  have f: "get_fs_dates w path = (Some created, Some modified)"
    using assms(2-4) by (simp add: get_fs_dates_def)
  have d: "update_file_dates w path md = Inr (Some created, Some modified)"
    using assms(1,5) f by (simp add: update_file_dates_def normalize_datetime_def)
  have "update_file_new_text w path md =
          Inr (orig, update_file_splice
                 (build_header (Some created) (Some modified) (detect_eol orig)) orig)"
    by (rule update_file_new_text_eq [OF assms(6) d])
  then show ?thesis
    using d update_file_splice_prefix
      [of "build_header (Some created) (Some modified) (detect_eol orig)" orig]
    by auto
qed

theorem fallback_dates_from_filesystem_witness:
  "update_file_dates (example_world (ustr ''int x;'')) widget (ustr ''git'') =
     Inr (Some (ustr ''2024-01-01 10:00:00''), Some (ustr ''2024-01-02 09:00:00'')) \<and>
   (\<exists>rest. update_file_new_text (example_world (ustr ''int x;'')) widget (ustr ''git'') =
      Inr (ustr ''int x;'',
           build_header (Some (ustr ''2024-01-01 10:00:00'')) (Some (ustr ''2024-01-02 09:00:00''))
             (detect_eol (ustr ''int x;'')) @ rest))"
proof -
  have s: "stat (example_world (ustr ''int x;'')) widget = Inr (1704103200, 1704186000)"
    by (simp add: example_world_def)
  have c: "strftime (example_world (ustr ''int x;'')) (min 1704103200 1704186000) =
             Inr (ustr ''2024-01-01 10:00:00'')"
    by (simp add: example_world_def example_strftime_def)
  have m: "strftime (example_world (ustr ''int x;'')) 1704186000 = Inr (ustr ''2024-01-02 09:00:00'')"
    by (simp add: example_world_def example_strftime_def)
  have g: "ustr ''git'' \<noteq> ustr ''commit''"
    by (simp add: ustr_def)
  have r: "read_text (example_world (ustr ''int x;'')) widget = Inr (ustr ''int x;'')"
    by (simp add: example_world_def)
  show ?thesis
    using fallback_dates_from_filesystem [OF example_git_no_data s c m g r]
    by simp
qed

text \<open>
  The untracked example file in commit mode: its \<open>stat\<close> succeeds and \<open>st_mtime\<close> is
  rendered as 2024-01-02 09:00:00, yet LastEditTime is the current time,
  2024-03-01 12:00:00.
\<close>

theorem fallback_commit_mode_counterexample:
  "get_git_dates (example_world (ustr ''int x;'')) widget = Inr (None, None) \<and>
   stat (example_world (ustr ''int x;'')) widget = Inr (1704103200, 1704186000) \<and>
   strftime (example_world (ustr ''int x;'')) 1704186000 = Inr (ustr ''2024-01-02 09:00:00'') \<and>
   update_file_dates (example_world (ustr ''int x;'')) widget (ustr ''commit'') =
     Inr (Some (ustr ''2024-01-01 10:00:00''), Some (ustr ''2024-03-01 12:00:00'')) \<and>
   update_file_new_text (example_world (ustr ''int x;'')) widget (ustr ''commit'') =
     Inr (ustr ''int x;'',
          build_header (Some (ustr ''2024-01-01 10:00:00'')) (Some (ustr ''2024-03-01 12:00:00'')) LF
            @ ustr ''int x;'')"
  by code_simp

section \<open>The paths of the arguments\<close>

lemma path_of_str_relative: "\<not> isabs f \<Longrightarrow> proot (path_of_str f) = []"
  by (cases f) (auto simp: isabs_def path_of_str_def ustr_def)

text \<open>
  Claim C10. A positional argument that is not absolute is joined to the repository
  root: the path has the root and the components of \<open>REPO_ROOT\<close>, followed by the
  components of the argument, and the current directory of the process has no part in
  it. An absolute argument is taken as given. These are the paths that
  \<open>list_target_files\<close> filters when arguments are given.
\<close>

theorem relative_argument_resolved_from_repo_root:
  "(\<not> isabs f \<longrightarrow>
      target_path w f = Path (proot (REPO_ROOT w)) (parts (REPO_ROOT w) @ parts (path_of_str f))) \<and>
   (isabs f \<longrightarrow> target_path w f = path_of_str f) \<and>
   (fs \<noteq> [] \<longrightarrow> list_target_files w fs = filter (is_target w) (map (target_path w) fs))"
  by (simp add: target_path_def joinpath_def path_of_str_relative list_target_files_def)

theorem relative_argument_resolved_from_repo_root_witness:
  "\<not> isabs (ustr ''src/widget.cpp'') \<and> isabs (ustr ''/tmp/a.h'') \<and>
   target_path (example_world []) (ustr ''src/widget.cpp'') = widget \<and>
   target_path (example_world []) (ustr ''/tmp/a.h'') = Path (ustr ''/'') [ustr ''tmp'', ustr ''a.h''] \<and>
   list_target_files (example_world []) [ustr ''src/widget.cpp'', ustr ''/tmp/a.h''] = [widget]"
proof -
  have a: "\<not> isabs (ustr ''src/widget.cpp'')" and b: "isabs (ustr ''/tmp/a.h'')"
    by code_simp+
  have p: "Path (proot (REPO_ROOT (example_world []))) (parts (REPO_ROOT (example_world [])) @
             parts (path_of_str (ustr ''src/widget.cpp''))) = widget"
    by code_simp
  have q: "path_of_str (ustr ''/tmp/a.h'') = Path (ustr ''/'') [ustr ''tmp'', ustr ''a.h'']"
    by code_simp
  have t: "is_target (example_world []) widget"
    and u: "\<not> is_target (example_world []) (Path (ustr ''/'') [ustr ''tmp'', ustr ''a.h''])"
    by code_simp+
  show ?thesis
    using relative_argument_resolved_from_repo_root
        [of "ustr ''src/widget.cpp''" "example_world []" "[ustr ''src/widget.cpp'', ustr ''/tmp/a.h'']"]
      relative_argument_resolved_from_repo_root
        [of "ustr ''/tmp/a.h''" "example_world []" "[ustr ''src/widget.cpp'', ustr ''/tmp/a.h'']"]
      a b p q t u
    by simp
qed


section \<open>The batch\<close>



text \<open>\<open>update_file\<close> answers \<open>True\<close> only after a write, and \<open>False\<close> only without one.\<close>

lemma update_file_True_written:
  assumes "fst (update_file w path md) = Inr b"
  shows "if b then \<exists>orig new_text. update_file_new_text w path md = Inr (orig, new_text) \<and>
                     new_text \<noteq> orig \<and>
                     read_text (snd (update_file w path md)) path = Inr new_text
         else snd (update_file w path md) = w"
  using assms
  by (auto simp: update_file_def write_text_def chmod_def
           split: sum.splits prod.splits if_splits option.splits exc.splits)






section \<open>Running the tool twice\<close>














end
